theory Spec2Isabelle
  imports Main "HOL-Library.AList"
begin

section \<open>Python strings\<close>

text \<open>
  A Python \<open>str\<close> is a sequence of Unicode code points, so a string is a list of
  natural numbers; \<open>ustr\<close> reads an ASCII literal as such a list.
\<close>

type_synonym pystr = "nat list"

definition ustr :: "string \<Rightarrow> pystr" where
  "ustr s = map of_char s"

text \<open>
  \<open>str.strip()\<close> without argument removes the characters for which \<open>str.isspace\<close>
  holds: U+0009..U+000D, U+001C..U+0020, U+0085, U+00A0, U+1680, U+2000..U+200A, U+2028,
  U+2029, U+202F, U+205F and U+3000.
\<close>

definition py_isspace :: "nat \<Rightarrow> bool" where
  "py_isspace c \<longleftrightarrow>
     (9 \<le> c \<and> c \<le> 13) \<or> (28 \<le> c \<and> c \<le> 32) \<or> c = 133 \<or> c = 160 \<or> c = 5760 \<or>
     (8192 \<le> c \<and> c \<le> 8202) \<or> c = 8232 \<or> c = 8233 \<or> c = 8239 \<or> c = 8287 \<or> c = 12288"

definition strip_with :: "(nat \<Rightarrow> bool) \<Rightarrow> pystr \<Rightarrow> pystr" where
  "strip_with p s = rev (dropWhile p (rev (dropWhile p s)))"

definition py_strip :: "pystr \<Rightarrow> pystr" where
  "py_strip s = strip_with py_isspace s"

definition py_strip_chars :: "nat list \<Rightarrow> pystr \<Rightarrow> pystr" where
  "py_strip_chars chars s = strip_with (\<lambda>c. c \<in> set chars) s"

text \<open>\<open>s.split(sep)\<close> for a one-character separator; \<open>"".split(",")\<close> is \<open>[""]\<close>.\<close>

fun py_split :: "nat \<Rightarrow> pystr \<Rightarrow> pystr list" where
  "py_split sep [] = [[]]"
| "py_split sep (c # cs) =
     (if c = sep then [] # py_split sep cs
      else (case py_split sep cs of
              [] \<Rightarrow> [[c]]
            | t # ts \<Rightarrow> (c # t) # ts))"

text \<open>
  \<open>str.isalpha\<close> and \<open>str.upper\<close> read the Unicode character database, which is not
  part of the repository: the two tables are a parameter. \<open>upper_cp\<close> gives a list,
  since the upper case of one character may be several (U+00DF gives \<open>SS\<close>).
\<close>

record unicode_tables =
  isalpha_cp :: "nat \<Rightarrow> bool"
  upper_cp :: "nat \<Rightarrow> nat list"

definition py_isalpha :: "unicode_tables \<Rightarrow> pystr \<Rightarrow> bool" where
  "py_isalpha U s \<longleftrightarrow> s \<noteq> [] \<and> list_all (isalpha_cp U) s"

definition py_upper :: "unicode_tables \<Rightarrow> pystr \<Rightarrow> pystr" where
  "py_upper U s = concat (map (upper_cp U) s)"

text \<open>The tables agree with Python on the ASCII range.\<close>

definition ascii_std :: "unicode_tables \<Rightarrow> bool" where
  "ascii_std U \<longleftrightarrow>
     (\<forall>c<128. isalpha_cp U c = ((65 \<le> c \<and> c \<le> 90) \<or> (97 \<le> c \<and> c \<le> 122))) \<and>
     (\<forall>c<128. upper_cp U c = [if 97 \<le> c \<and> c \<le> 122 then c - 32 else c])"

text \<open>
  Python's tables on U+0000..U+00FF. Code points above U+00FF are outside this instance
  (it reports them as not alphabetic and leaves them unchanged).
\<close>

definition latin1_tables :: unicode_tables where
  "latin1_tables =
     \<lparr> isalpha_cp = (\<lambda>c. (65 \<le> c \<and> c \<le> 90) \<or> (97 \<le> c \<and> c \<le> 122) \<or> c = 170 \<or> c = 181 \<or>
                          c = 186 \<or> (192 \<le> c \<and> c \<le> 255 \<and> c \<noteq> 215 \<and> c \<noteq> 247)),
       upper_cp = (\<lambda>c. if 97 \<le> c \<and> c \<le> 122 then [c - 32]
                        else if c = 181 then [924]
                        else if c = 223 then [83, 83]
                        else if 224 \<le> c \<and> c \<le> 254 \<and> c \<noteq> 247 then [c - 32]
                        else if c = 255 then [376]
                        else [c]) \<rparr>"

section \<open>Exceptions\<close>

text \<open>
  A raised exception is the left summand of the result. Every exception of the model is
  an \<open>Exception\<close>, so \<open>except Exception\<close> catches each of them.
\<close>

datatype exn = Exn pystr

section \<open>Input normalisation: \<open>app.py\<close> and \<open>utils.py\<close>\<close>

text \<open>
  The argument of the second \<open>strip\<close> in \<open>_parse_keywords\<close>, as the literal is stored
  in the source file: the two straight quotes, then U+00E2, U+20AC, U+00E2, U+20AC, U+2122.
\<close>

definition quote_chars :: "nat list" where
  "quote_chars = [34, 39] @ [226, 8364, 226, 8364, 8482]"

text \<open>\<open>parts = [p.strip().strip(...) for p in raw.split(",")]\<close>\<close>

definition keyword_parts :: "pystr \<Rightarrow> pystr list" where
  "keyword_parts raw = map (\<lambda>p. py_strip_chars quote_chars (py_strip p)) (py_split 44 raw)"

text \<open>The loop over \<open>parts\<close>, with its two variables \<open>cleaned\<close> and \<open>seen\<close>.\<close>

fun dedup_loop :: "pystr list \<Rightarrow> pystr list \<Rightarrow> pystr set \<Rightarrow> pystr list" where
  "dedup_loop [] cleaned seen = cleaned"
| "dedup_loop (p # ps) cleaned seen =
     (if p \<noteq> [] \<and> p \<notin> seen then dedup_loop ps (cleaned @ [p]) (insert p seen)
      else dedup_loop ps cleaned seen)"

text \<open>The list \<open>cleaned\<close> when the loop ends, before \<open>cleaned[:5]\<close>.\<close>

definition cleaned_keywords :: "pystr \<Rightarrow> pystr list" where
  "cleaned_keywords raw = dedup_loop (keyword_parts raw) [] {}"

text \<open>\<open>_parse_keywords\<close>; the raw value of the input field is a string or \<open>None\<close>.\<close>

definition parse_keywords :: "pystr option \<Rightarrow> pystr list" where
  "parse_keywords raw =
     (case raw of
        None \<Rightarrow> []
      | Some r \<Rightarrow> if r = [] then [] else take 5 (cleaned_keywords r))"

text \<open>
  The specification's reading of the loop: duplicates removed, the first occurrence of
  each entry kept, in the order of the first occurrences.
\<close>

definition first_seen :: "'a list \<Rightarrow> 'a list" where
  "first_seen xs = rev (remdups (rev xs))"

text \<open>A string that \<open>strip()\<close> would empty: it holds white space only.\<close>

definition whitespace_only :: "pystr \<Rightarrow> bool" where
  "whitespace_only s \<longleftrightarrow> s \<noteq> [] \<and> list_all py_isspace s"

text \<open>
  The first lines of \<open>run_analysis\<close>: the parsed keywords and the flag \<open>trimmed\<close>,
  computed from \<open>user_count\<close>, the number of comma-separated parts that are not blank.
\<close>

definition user_count :: "pystr \<Rightarrow> nat" where
  "user_count raw = length (filter (\<lambda>p. py_strip p \<noteq> []) (py_split 44 raw))"

definition analysis_keywords :: "pystr option \<Rightarrow> pystr list \<times> bool" where
  "analysis_keywords keywords_raw =
     (let raw_list = parse_keywords keywords_raw;
          trimmed = (case keywords_raw of
                       None \<Rightarrow> False
                     | Some r \<Rightarrow> if r = [] then False else user_count r > length raw_list)
      in (raw_list, trimmed))"

text \<open>Truncation occurred: \<open>cleaned[:5]\<close> dropped at least one keyword.\<close>

definition truncated :: "pystr option \<Rightarrow> bool" where
  "truncated keywords_raw \<longleftrightarrow>
     (case keywords_raw of
        None \<Rightarrow> False
      | Some r \<Rightarrow> r \<noteq> [] \<and> length (cleaned_keywords r) > 5)"

text \<open>
  \<open>get_country_code\<close>. The country database is not part of the repository:
  \<open>countries_lookup s\<close> stands for \<open>pycountry.countries.lookup(s).alpha_2\<close>, which
  gives the code or raises.
\<close>

definition get_country_code ::
    "unicode_tables \<Rightarrow> (pystr \<Rightarrow> exn + pystr) \<Rightarrow> pystr \<Rightarrow> exn + pystr" where
  "get_country_code U countries_lookup user_input =
     (if user_input = [] then Inr []
      else let s = py_strip user_input in
        if length s = 2 \<and> py_isalpha U s then Inr (py_upper U s)
        else (case countries_lookup s of
                Inr alpha_2 \<Rightarrow> Inr alpha_2
              | Inl e \<Rightarrow> Inr []))"

text \<open>Two upper-case ASCII letters, the shape of an ISO 3166 alpha-2 code.\<close>

definition is_alpha2 :: "pystr \<Rightarrow> bool" where
  "is_alpha2 code \<longleftrightarrow> length code = 2 \<and> list_all (\<lambda>c. 65 \<le> c \<and> c \<le> 90) code"

text \<open>A country database all of whose codes have that shape, and an ASCII string.\<close>

definition alpha2_lookup :: "(pystr \<Rightarrow> exn + pystr) \<Rightarrow> bool" where
  "alpha2_lookup countries_lookup \<longleftrightarrow> (\<forall>s code. countries_lookup s = Inr code \<longrightarrow> is_alpha2 code)"

definition is_ascii :: "pystr \<Rightarrow> bool" where
  "is_ascii s \<longleftrightarrow> list_all (\<lambda>c. c < 128) s"

text \<open>A small country database for the examples: one entry, every other name raises.\<close>

definition sample_lookup :: "pystr \<Rightarrow> exn + pystr" where
  "sample_lookup s =
     (if s = ustr ''Nigeria'' then Inr (ustr ''NG'')
      else Inl (Exn (ustr ''Could not find a record'')))"

section \<open>Tables\<close>

text \<open>
  A pandas \<open>DataFrame\<close> in the layout of \<open>orient="split"\<close>: the column labels, and
  the rows, each an index label with its cells. \<open>pd.DataFrame()\<close> has neither columns
  nor rows, and \<open>df.empty\<close> holds when one of the two axes has length 0.
\<close>

record ('l, 'c) dataframe =
  df_columns :: "pystr list"
  df_rows :: "('l \<times> 'c list) list"

definition empty_frame :: "('l, 'c) dataframe" where
  "empty_frame = \<lparr> df_columns = [], df_rows = [] \<rparr>"

definition df_empty :: "('l, 'c) dataframe \<Rightarrow> bool" where
  "df_empty d \<longleftrightarrow> df_rows d = [] \<or> df_columns d = []"

text \<open>\<open>df.drop(columns=[name])\<close>\<close>

definition drop_column :: "pystr \<Rightarrow> ('l, 'c) dataframe \<Rightarrow> ('l, 'c) dataframe" where
  "drop_column name d =
     d \<lparr> df_columns := filter (\<lambda>c. c \<noteq> name) (df_columns d),
         df_rows := map (\<lambda>(l, cs). (l, map snd (filter (\<lambda>(c, v). c \<noteq> name) (zip (df_columns d) cs))))
                        (df_rows d) \<rparr>"

text \<open>
  What a provider call hands back is a table, \<open>None\<close>, or some other object
  (the code tests \<open>isinstance(df, pd.DataFrame)\<close>).
\<close>

datatype ('l, 'c) pyval = DataFrame "('l, 'c) dataframe" | NoneVal | OtherVal

section \<open>The gateway: \<open>trend_data.py\<close>\<close>

text \<open>
  The provider (\<open>pytrends\<close>) is outside the repository. Its answers are a parameter:
  what \<open>build_payload\<close> does for a query, and what each fetch returns for the payload
  that was built (a value, or an exception). Every call to the provider, and the pause
  of \<open>get_related_queries\<close>, is recorded in a trace, so that "no call is made" can be
  stated.
\<close>

type_synonym payload = "pystr list \<times> pystr \<times> pystr"

type_synonym ('l, 'c) bucket = "(pystr \<times> ('l, 'c) pyval) list"

type_synonym ('l, 'c) related = "(pystr \<times> ('l, 'c) bucket option) list"

record ('l, 'c) provider =
  build_payload :: "payload \<Rightarrow> exn + unit"
  interest_over_time :: "payload \<Rightarrow> exn + ('l, 'c) pyval"
  interest_by_region :: "payload \<Rightarrow> pystr \<Rightarrow> exn + ('l, 'c) pyval"
  related_queries :: "payload \<Rightarrow> exn + ('l, 'c) related option"

datatype event =
    BuildPayload "pystr list" pystr pystr
  | InterestOverTime
  | InterestByRegion pystr
  | RelatedQueries
  | Sleep nat

type_synonym 'a outcome = "event list \<times> (exn + 'a)"

definition ret :: "'a \<Rightarrow> 'a outcome" where
  "ret x = ([], Inr x)"

definition call :: "event \<Rightarrow> exn + 'a \<Rightarrow> 'a outcome" where
  "call ev r = ([ev], r)"

text \<open>Sequencing: an exception of the first part ends the whole.\<close>

definition bind_out :: "'a outcome \<Rightarrow> ('a \<Rightarrow> 'b outcome) \<Rightarrow> 'b outcome" where
  "bind_out m f =
     (case m of
        (t, Inl e) \<Rightarrow> (t, Inl e)
      | (t, Inr x) \<Rightarrow> (case f x of (t', r) \<Rightarrow> (t @ t', r)))"

text \<open>\<open>try: m except Exception: h\<close>\<close>

definition try_except :: "'a outcome \<Rightarrow> (exn \<Rightarrow> 'a outcome) \<Rightarrow> 'a outcome" where
  "try_except m h =
     (case m of
        (t, Inl e) \<Rightarrow> (case h e of (t', r) \<Rightarrow> (t @ t', r))
      | (t, Inr x) \<Rightarrow> (t, Inr x))"

text \<open>The fields of \<open>TrendData\<close> that \<open>set_query\<close> stores.\<close>

record gateway =
  self_keywords :: "pystr list"
  self_timeframe :: pystr
  self_geo :: pystr

definition current_payload :: "gateway \<Rightarrow> payload" where
  "current_payload g = (self_keywords g, self_timeframe g, self_geo g)"

definition build_payload_step :: "('l, 'c) provider \<Rightarrow> gateway \<Rightarrow> unit outcome" where
  "build_payload_step P g =
     (if self_keywords g \<noteq> []
      then call (BuildPayload (self_keywords g) (self_timeframe g) (self_geo g)) (build_payload P (current_payload g))
      else ret ())"

definition fetch_interest_over_time ::
    "('l, 'c) provider \<Rightarrow> gateway \<Rightarrow> ('l, 'c) dataframe outcome" where
  "fetch_interest_over_time P g =
     (if self_keywords g = [] then ret empty_frame
      else
        bind_out (build_payload_step P g) (\<lambda>_.
        bind_out (call InterestOverTime (interest_over_time P (current_payload g))) (\<lambda>df.
          ret (case df of
                 DataFrame d \<Rightarrow>
                   if \<not> df_empty d \<and> ustr ''isPartial'' \<in> set (df_columns d)
                   then drop_column (ustr ''isPartial'') d else d
               | _ \<Rightarrow> empty_frame))))"

definition get_interest_by_region ::
    "('l, 'c) provider \<Rightarrow> gateway \<Rightarrow> pystr \<Rightarrow> ('l, 'c) dataframe outcome" where
  "get_interest_by_region P g resolution =
     (if self_keywords g = [] then ret empty_frame
      else
        bind_out (build_payload_step P g) (\<lambda>_.
        try_except
          (bind_out (call (InterestByRegion resolution)
                          (interest_by_region P (current_payload g) resolution)) (\<lambda>df.
             ret (case df of DataFrame d \<Rightarrow> d | _ \<Rightarrow> empty_frame)))
          (\<lambda>e. ret empty_frame)))"

definition get_related_queries ::
    "('l, 'c) provider \<Rightarrow> gateway \<Rightarrow> ('l, 'c) related option outcome" where
  "get_related_queries P g =
     (if self_keywords g = [] then ret None
      else
        bind_out (build_payload_step P g) (\<lambda>_.
        bind_out (call (Sleep 1) (Inr ())) (\<lambda>_.
        try_except
          (call RelatedQueries (related_queries P (current_payload g)))
          (\<lambda>e. ret None))))"

text \<open>\<open>get_related_frames\<close>: the dictionary with the keys \<open>top\<close> and \<open>rising\<close>.\<close>

record ('l, 'c) related_frames =
  top_df :: "('l, 'c) pyval"
  rising_df :: "('l, 'c) pyval"

definition no_frames :: "('l, 'c) related_frames" where
  "no_frames = \<lparr> top_df = NoneVal, rising_df = NoneVal \<rparr>"

text \<open>\<open>rq.get(k, {}) or {}\<close> and \<open>bucket.get(key)\<close>\<close>

definition bucket_of :: "('l, 'c) related \<Rightarrow> pystr \<Rightarrow> ('l, 'c) bucket" where
  "bucket_of rq k =
     (case map_of rq k of
        None \<Rightarrow> []
      | Some None \<Rightarrow> []
      | Some (Some b) \<Rightarrow> b)"

definition bucket_get :: "('l, 'c) bucket \<Rightarrow> pystr \<Rightarrow> ('l, 'c) pyval" where
  "bucket_get b key = (case map_of b key of None \<Rightarrow> NoneVal | Some v \<Rightarrow> v)"

text \<open>\<open>if isinstance(df, pd.DataFrame) and df.empty: df = None\<close>\<close>

definition clean_empty :: "('l, 'c) pyval \<Rightarrow> ('l, 'c) pyval" where
  "clean_empty v = (case v of DataFrame d \<Rightarrow> if df_empty d then NoneVal else v | _ \<Rightarrow> v)"

definition get_related_frames ::
    "('l, 'c) provider \<Rightarrow> gateway \<Rightarrow> ('l, 'c) related_frames outcome" where
  "get_related_frames P g =
     bind_out (get_related_queries P g) (\<lambda>rq.
       ret (case rq of
              None \<Rightarrow> \<lparr> top_df = NoneVal, rising_df = NoneVal \<rparr>
            | Some d \<Rightarrow>
                (if d \<noteq> [] \<and> self_keywords g \<noteq> []
                 then (case self_keywords g of
                         [] \<Rightarrow> \<lparr> top_df = NoneVal, rising_df = NoneVal \<rparr>
                       | k # _ \<Rightarrow>
                           let bucket = bucket_of d k
                           in \<lparr> top_df = clean_empty (bucket_get bucket (ustr ''top'')),
                                rising_df = clean_empty (bucket_get bucket (ustr ''rising'')) \<rparr>)
                 else \<lparr> top_df = NoneVal, rising_df = NoneVal \<rparr>)))"

text \<open>A table that is present but empty, as the specification calls it.\<close>

definition present_but_empty :: "('l, 'c) pyval \<Rightarrow> bool" where
  "present_but_empty v \<longleftrightarrow> (case v of DataFrame d \<Rightarrow> df_empty d | _ \<Rightarrow> False)"

section \<open>The render steps: \<open>app.py\<close>\<close>

text \<open>
  The stores hold the text that \<open>to_json(orient="split")\<close> produced, or \<open>None\<close>.
  \<open>pd.read_json\<close> is outside the repository and is a parameter: it gives the table
  of a text, or raises. \<open>if top_json:\<close> tests that the value is neither \<open>None\<close>
  nor the empty string.
\<close>

record related_store =
  top_json :: "pystr option"
  rising_json :: "pystr option"

definition truthy :: "pystr option \<Rightarrow> bool" where
  "truthy v \<longleftrightarrow> (case v of None \<Rightarrow> False | Some s \<Rightarrow> s \<noteq> [])"

definition text_of :: "pystr option \<Rightarrow> pystr" where
  "text_of v = (case v of None \<Rightarrow> [] | Some s \<Rightarrow> s)"

text \<open>\<open>[{"name": c, "id": c} for c in df.columns]\<close>, each entry as the pair of its values.\<close>

definition table_columns :: "('l, 'c) dataframe \<Rightarrow> (pystr \<times> pystr) list" where
  "table_columns d = map (\<lambda>c. (c, c)) (df_columns d)"

text \<open>
  \<open>df.to_dict("records")\<close>: one dictionary per row, built from the pairs of column and
  cell in order (a later cell replaces an earlier one under the same column label).
\<close>

definition to_records :: "('l, 'c) dataframe \<Rightarrow> (pystr \<times> 'c) list list" where
  "to_records d =
     map (\<lambda>(l, cs). fold (\<lambda>(k, v). AList.update k v) (zip (df_columns d) cs) []) (df_rows d)"

definition top_note :: pystr where
  "top_note = ustr ''Showing top related queries.''"

text \<open>The note of the \<open>rising\<close> branch, with the non-ASCII characters as the source file stores them.\<close>

definition rising_note :: pystr where
  "rising_note =
     [226, 8364, 732] @ ustr ''Top'' @ [226, 8364, 8482] @ ustr '' not available for this combo '' @
     [226, 8364, 8221] @ ustr '' showing rising queries instead.''"

definition no_related_note :: pystr where
  "no_related_note = ustr ''No related queries available for this keyword/timeframe/region.''"

type_synonym 'c table_view = "(pystr \<times> pystr) list \<times> (pystr \<times> 'c) list list \<times> pystr"

text \<open>The part of \<open>update_related_table\<close> after the branch has chosen a text and a note.\<close>

definition render_table ::
    "(pystr \<Rightarrow> exn + ('l, 'c) dataframe) \<Rightarrow> pystr \<Rightarrow> pystr \<Rightarrow> exn + 'c table_view" where
  "render_table read_json text note =
     (case read_json text of
        Inl e \<Rightarrow> Inl e
      | Inr df \<Rightarrow>
          if df_empty df then Inr ([], [], no_related_note)
          else Inr (table_columns df, to_records df, note))"

definition update_related_table ::
    "(pystr \<Rightarrow> exn + ('l, 'c) dataframe) \<Rightarrow> related_store option \<Rightarrow> exn + 'c table_view" where
  "update_related_table read_json related_json =
     (case related_json of
        None \<Rightarrow> Inr ([], [], [])
      | Some rj \<Rightarrow>
          if truthy (top_json rj) then render_table read_json (text_of (top_json rj)) top_note
          else if truthy (rising_json rj) then render_table read_json (text_of (rising_json rj)) rising_note
          else Inr ([], [], no_related_note))"

text \<open>
  The related-queries entry of the store, as \<open>run_analysis\<close> builds it from the frames:
  \<open>df.to_json(orient="split") if isinstance(df, pd.DataFrame) else None\<close>.
  \<open>to_json\<close> is outside the repository and is a parameter.
\<close>

definition json_or_none :: "(('l, 'c) dataframe \<Rightarrow> pystr) \<Rightarrow> ('l, 'c) pyval \<Rightarrow> pystr option" where
  "json_or_none to_json v = (case v of DataFrame d \<Rightarrow> Some (to_json d) | _ \<Rightarrow> None)"

definition store_related ::
    "(('l, 'c) dataframe \<Rightarrow> pystr) \<Rightarrow> ('l, 'c) related_frames \<Rightarrow> related_store" where
  "store_related to_json frames =
     \<lparr> top_json = json_or_none to_json (top_df frames),
       rising_json = json_or_none to_json (rising_df frames) \<rparr>"

text \<open>
  The table \<open>fr\<close> of \<open>update_top_regions\<close>, reached when the column of the first keyword
  is in the region table:
  \<open>region_df[region_df[kw] >= (min_interest or 0)].sort_values(by=kw, ascending=False).head(top_n or 10)\<close>.
  The cells of a region table are integer scores. The value of a row in a column is
  looked up by the column's label; a row with no cell there is dropped by the
  comparison, as a missing value is.
\<close>

definition col_value :: "pystr list \<Rightarrow> pystr \<Rightarrow> 'l \<times> int list \<Rightarrow> int option" where
  "col_value cols kw r = map_of (zip cols (snd r)) kw"

definition meets :: "pystr list \<Rightarrow> pystr \<Rightarrow> int \<Rightarrow> 'l \<times> int list \<Rightarrow> bool" where
  "meets cols kw m r = (case col_value cols kw r of None \<Rightarrow> False | Some v \<Rightarrow> v \<ge> m)"

definition score :: "pystr list \<Rightarrow> pystr \<Rightarrow> 'l \<times> int list \<Rightarrow> int" where
  "score cols kw r = (case col_value cols kw r of None \<Rightarrow> 0 | Some v \<Rightarrow> v)"

text \<open>
  \<open>sort_values(by=kw, ascending=False)\<close>. pandas leaves the order of rows with equal
  scores to its sorting algorithm; here they keep their order.
\<close>

definition sort_values_desc :: "pystr list \<Rightarrow> pystr \<Rightarrow> ('l \<times> int list) list \<Rightarrow> ('l \<times> int list) list" where
  "sort_values_desc cols kw rs = sort_key (\<lambda>r. - score cols kw r) rs"

text \<open>\<open>df.head(n)\<close>: the first \<open>n\<close> rows, and for a negative \<open>n\<close> all rows but the last \<open>-n\<close>.\<close>

definition df_head :: "int \<Rightarrow> 'a list \<Rightarrow> 'a list" where
  "df_head n xs = (if 0 \<le> n then take (nat n) xs else take (length xs - nat (- n)) xs)"

text \<open>\<open>v or d\<close> for a slider value \<open>v\<close>, which is a number or \<open>None\<close>.\<close>

definition or_default :: "int option \<Rightarrow> int \<Rightarrow> int" where
  "or_default v d = (case v of None \<Rightarrow> d | Some x \<Rightarrow> if x = 0 then d else x)"

definition top_regions_fr ::
    "('l, int) dataframe \<Rightarrow> pystr \<Rightarrow> int option \<Rightarrow> int option \<Rightarrow> ('l, int) dataframe" where
  "top_regions_fr region_df first_keyword min_interest top_n =
     region_df \<lparr> df_rows :=
       df_head (or_default top_n 10)
         (sort_values_desc (df_columns region_df) first_keyword
            (filter (meets (df_columns region_df) first_keyword (or_default min_interest 0))
                    (df_rows region_df))) \<rparr>"

section \<open>Sample data\<close>

text \<open>Index labels and cells of the sample tables: strings and numbers.\<close>

datatype cell = Str pystr | Num int

definition sample_gateway :: gateway where
  "sample_gateway =
     \<lparr> self_keywords = [ustr ''Python''], self_timeframe = ustr ''today 1-m'', self_geo = [] \<rparr>"

definition idle_gateway :: gateway where
  "idle_gateway = \<lparr> self_keywords = [], self_timeframe = ustr ''today 1-m'', self_geo = [] \<rparr>"

definition sample_region :: "(pystr, int) dataframe" where
  "sample_region =
     \<lparr> df_columns = [ustr ''Python''],
       df_rows = [(ustr ''Ghana'', [50]), (ustr ''Kenya'', [10]), (ustr ''Nigeria'', [80]),
                  (ustr ''Togo'', [20]), (ustr ''Mali'', [35])] \<rparr>"

definition sample_times :: "(cell, cell) dataframe" where
  "sample_times =
     \<lparr> df_columns = [ustr ''Python''],
       df_rows = [(Str (ustr ''2024-01-07''), [Num 60]), (Str (ustr ''2024-01-14''), [Num 100])] \<rparr>"

definition sample_regions :: "(cell, cell) dataframe" where
  "sample_regions =
     \<lparr> df_columns = [ustr ''Python''],
       df_rows = [(Str (ustr ''Ghana''), [Num 50]), (Str (ustr ''Nigeria''), [Num 80])] \<rparr>"

definition sample_rising :: "(cell, cell) dataframe" where
  "sample_rising =
     \<lparr> df_columns = [ustr ''query'', ustr ''value''],
       df_rows = [(Num 0, [Str (ustr ''python 3''), Num 300]),
                  (Num 1, [Str (ustr ''pandas''), Num 150]),
                  (Num 2, [Str (ustr ''numpy''), Num 90])] \<rparr>"

definition sample_top_empty :: "(cell, cell) dataframe" where
  "sample_top_empty = \<lparr> df_columns = [ustr ''query'', ustr ''value''], df_rows = [] \<rparr>"

text \<open>A provider that answers every call; its related queries have an empty \<open>top\<close> table.\<close>

definition sample_provider :: "(cell, cell) provider" where
  "sample_provider =
     \<lparr> build_payload = (\<lambda>q. Inr ()),
       interest_over_time = (\<lambda>q. Inr (DataFrame sample_times)),
       interest_by_region = (\<lambda>q res. Inr (DataFrame sample_regions)),
       related_queries = (\<lambda>q. Inr (Some [(ustr ''Python'',
          Some [(ustr ''top'', DataFrame sample_top_empty),
                (ustr ''rising'', DataFrame sample_rising)])])) \<rparr>"

text \<open>A provider whose \<open>build_payload\<close> raises, and one whose \<open>interest_by_region\<close> raises.\<close>

definition build_error_provider :: "(cell, cell) provider" where
  "build_error_provider = sample_provider \<lparr> build_payload := (\<lambda>q. Inl (Exn (ustr ''429''))) \<rparr>"

definition region_error_provider :: "(cell, cell) provider" where
  "region_error_provider =
     sample_provider \<lparr> interest_by_region := (\<lambda>q res. Inl (Exn (ustr ''429''))) \<rparr>"

text \<open>The texts of two tables in the layout of \<open>orient="split"\<close>, and a reader for them.\<close>

definition top_empty_text :: pystr where
  \<open>top_empty_text = ustr ''{"columns":["query","value"],"index":[],"data":[]}''\<close>

definition rising_text :: pystr where
  \<open>rising_text = ustr ''{"columns":["query","value"],"index":[0,1,2],"data":[["python 3",300],["pandas",150],["numpy",90]]}''\<close>

definition sample_read_json :: "pystr \<Rightarrow> exn + (cell, cell) dataframe" where
  "sample_read_json text =
     (if text = top_empty_text then Inr sample_top_empty
      else if text = rising_text then Inr sample_rising
      else Inl (Exn (ustr ''Expected object or value'')))"

text \<open>A writer for the sample tables, the inverse of the reader on them.\<close>

definition sample_to_json :: "(cell, cell) dataframe \<Rightarrow> pystr" where
  "sample_to_json d = (if d = sample_rising then rising_text else top_empty_text)"

section \<open>Evaluation\<close>

lemmas string_defs =
  ustr_def py_strip_def py_strip_chars_def strip_with_def py_isspace_def quote_chars_def

lemmas keyword_defs =
  parse_keywords_def cleaned_keywords_def keyword_parts_def analysis_keywords_def
  user_count_def truncated_def whitespace_only_def

section \<open>Keyword parsing\<close>

lemma remdups_snoc: "remdups (ys @ [p]) = filter (\<lambda>y. y \<noteq> p) (remdups ys) @ [p]"
  by (induction ys) auto

lemma first_seen_Cons: "first_seen (x # xs) = x # first_seen (filter (\<lambda>y. y \<noteq> x) xs)"
  by (simp add: first_seen_def remdups_snoc rev_filter remdups_filter)



lemma length_first_seen: "length (first_seen xs) \<le> length xs"
  by (simp add: first_seen_def) (metis length_remdups_leq length_rev)

lemma dedup_loop_acc: "dedup_loop ps cleaned seen = cleaned @ dedup_loop ps [] seen"
proof (induction ps arbitrary: cleaned seen)
  case Nil
  then show ?case by simp
next
  case (Cons p ps)
  show ?case
  proof (cases "p \<noteq> [] \<and> p \<notin> seen")
    case True
    have "dedup_loop (p # ps) cleaned seen = dedup_loop ps (cleaned @ [p]) (insert p seen)"
      using True by simp
    also have "\<dots> = (cleaned @ [p]) @ dedup_loop ps [] (insert p seen)"
      by (rule Cons.IH)
    also have "\<dots> = cleaned @ dedup_loop ps [p] (insert p seen)"
      using Cons.IH [of "[p]" "insert p seen"] by simp
    finally show ?thesis using True by simp
  next
    case False
    then show ?thesis using Cons.IH [of cleaned seen] by auto
  qed
qed

lemma dedup_loop_first_seen:
  "dedup_loop ps [] seen = first_seen (filter (\<lambda>p. p \<noteq> [] \<and> p \<notin> seen) ps)"
proof (induction ps arbitrary: seen)
  case Nil
  then show ?case by (simp add: first_seen_def)
next
  case (Cons p ps)
  show ?case
  proof (cases "p \<noteq> [] \<and> p \<notin> seen")
    case True
    have "dedup_loop (p # ps) [] seen = p # dedup_loop ps [] (insert p seen)"
      using True dedup_loop_acc [of ps "[p]" "insert p seen"] by simp
    also have "\<dots> = p # first_seen (filter (\<lambda>q. q \<noteq> [] \<and> q \<notin> insert p seen) ps)"
      by (simp add: Cons.IH)
    also have "filter (\<lambda>q. q \<noteq> [] \<and> q \<notin> insert p seen) ps
               = filter (\<lambda>y. y \<noteq> p) (filter (\<lambda>q. q \<noteq> [] \<and> q \<notin> seen) ps)"
      by (induction ps) auto
    finally show ?thesis using True by (simp add: first_seen_Cons)
  next
    case False
    then show ?thesis using Cons.IH [of seen] by auto
  qed
qed

lemma cleaned_keywords_first_seen:
  "cleaned_keywords raw = first_seen (filter (\<lambda>p. p \<noteq> []) (keyword_parts raw))"
  by (simp add: cleaned_keywords_def dedup_loop_first_seen)




section \<open>The flag \<open>trimmed\<close>\<close>

lemma length_filter_mono:
  "(\<And>x. x \<in> set xs \<Longrightarrow> P x \<Longrightarrow> Q x) \<Longrightarrow> length (filter P xs) \<le> length (filter Q xs)"
  by (induction xs) auto

lemma cleaned_le_user_count: "length (cleaned_keywords r) \<le> user_count r"
proof -
  let ?clean = "\<lambda>p. py_strip_chars quote_chars (py_strip p)"
  have "length (cleaned_keywords r) \<le> length (filter (\<lambda>p. p \<noteq> []) (keyword_parts r))"
    by (simp add: cleaned_keywords_first_seen length_first_seen)
  also have "\<dots> = length (filter (\<lambda>p. ?clean p \<noteq> []) (py_split 44 r))"
    by (simp add: keyword_parts_def filter_map comp_def)
  also have "\<dots> \<le> length (filter (\<lambda>p. py_strip p \<noteq> []) (py_split 44 r))"
    by (rule length_filter_mono) (auto simp: py_strip_chars_def strip_with_def)
  finally show ?thesis by (simp add: user_count_def)
qed

text \<open>Whenever keywords were cut off, the flag \<open>trimmed\<close> is set.\<close>

lemma truncated_imp_trimmed: "truncated raw \<Longrightarrow> snd (analysis_keywords raw)"
proof (cases raw)
  case None
  assume "truncated raw"
  with None show ?thesis by (simp add: truncated_def)
next
  case (Some r)
  assume "truncated raw"
  with Some have r: "r \<noteq> []" and long: "length (cleaned_keywords r) > 5"
    by (simp_all add: truncated_def)
  from long cleaned_le_user_count [of r] have "user_count r > 5" by linarith
  with Some r long show ?thesis
    by (simp add: analysis_keywords_def parse_keywords_def)
qed

text \<open>
  C5: the flag is meant to say that more than 5 keywords were entered (the comment at its
  computation says so, and the alert it triggers reads "Only the first 5 keywords were
  used"). The code compares the number of non-blank parts with the number of keywords
  kept, so a repeated keyword sets the flag although nothing was cut off:
  \<open>"a,a"\<close> gives the one keyword \<open>a\<close> and the flag \<open>True\<close>. For \<open>"a,b,c,d,e,f,g"\<close>
  the first 5 entries are kept and the flag is \<open>True\<close>, as the claim says.
\<close>

theorem trimmed_set_by_duplicate:
  "analysis_keywords (Some (ustr ''a,a'')) = ([ustr ''a''], True) \<and>
   \<not> truncated (Some (ustr ''a,a'')) \<and>
   analysis_keywords (Some (ustr ''a,b,c,d,e,f,g'')) =
     ([ustr ''a'', ustr ''b'', ustr ''c'', ustr ''d'', ustr ''e''], True) \<and>
   truncated (Some (ustr ''a,b,c,d,e,f,g''))"
  by (simp add: keyword_defs string_defs)

section \<open>Country codes\<close>

lemma set_strip_with: "set (strip_with p s) \<subseteq> set s"
proof -
  have "set (strip_with p s) \<subseteq> set (dropWhile p s)"
    unfolding strip_with_def by (auto dest: set_dropWhileD)
  then show ?thesis by (auto dest: set_dropWhileD)
qed

lemma is_ascii_py_strip: "is_ascii s \<Longrightarrow> is_ascii (py_strip s)"
  using set_strip_with [of py_isspace s] by (auto simp: is_ascii_def py_strip_def list_all_iff)

lemma ascii_std_latin1: "ascii_std latin1_tables"
  by (auto simp: ascii_std_def latin1_tables_def)

lemma alpha2_sample_lookup: "alpha2_lookup sample_lookup"
  by (simp add: alpha2_lookup_def sample_lookup_def is_alpha2_def ustr_def)

lemma get_country_code_returns: "\<exists>r. get_country_code U L inp = Inr r"
  by (simp add: get_country_code_def Let_def split: sum.split)

lemma upper_ascii_pair:
  assumes U: "ascii_std U" and a: "a < 128" and b: "b < 128" and al: "py_isalpha U [a, b]"
  shows "is_alpha2 (py_upper U [a, b])"
proof -
  from U a al have ia: "(65 \<le> a \<and> a \<le> 90) \<or> (97 \<le> a \<and> a \<le> 122)"
    by (simp add: ascii_std_def py_isalpha_def)
  from U b al have ib: "(65 \<le> b \<and> b \<le> 90) \<or> (97 \<le> b \<and> b \<le> 122)"
    by (simp add: ascii_std_def py_isalpha_def)
  from U a have ua: "upper_cp U a = [if 97 \<le> a \<and> a \<le> 122 then a - 32 else a]"
    by (simp add: ascii_std_def)
  from U b have ub: "upper_cp U b = [if 97 \<le> b \<and> b \<le> 122 then b - 32 else b]"
    by (simp add: ascii_std_def)
  from ia ib show ?thesis
    unfolding py_upper_def is_alpha2_def by (simp add: ua ub) linarith
qed

text \<open>
  C6: the empty input gives the empty string; the result is never an exception; a
  trimmed input of two alphabetic characters is returned upper-cased, whatever the
  country database holds; any other input is looked up, trimmed, and gives the code
  found, or the empty string when the lookup raises. With a database that knows
  Nigeria as NG and does not know "Not A Country": \<open>""\<close> gives \<open>""\<close>, \<open>"ng"\<close> gives
  \<open>"NG"\<close>, \<open>"Nigeria"\<close> gives \<open>"NG"\<close> and \<open>"Not A Country"\<close> gives \<open>""\<close>.
\<close>

theorem get_country_code_cases:
  "get_country_code U L [] = Inr [] \<and>
   (\<exists>r. get_country_code U L inp = Inr r) \<and>
   (inp \<noteq> [] \<and> length (py_strip inp) = 2 \<and> py_isalpha U (py_strip inp) \<longrightarrow>
      get_country_code U L inp = Inr (py_upper U (py_strip inp))) \<and>
   (inp \<noteq> [] \<and> \<not> (length (py_strip inp) = 2 \<and> py_isalpha U (py_strip inp)) \<and>
    L (py_strip inp) = Inr code \<longrightarrow> get_country_code U L inp = Inr code) \<and>
   (inp \<noteq> [] \<and> \<not> (length (py_strip inp) = 2 \<and> py_isalpha U (py_strip inp)) \<and>
    L (py_strip inp) = Inl e \<longrightarrow> get_country_code U L inp = Inr []) \<and>
   (ascii_std U \<longrightarrow> get_country_code U L (ustr ''ng'') = Inr (ustr ''NG'')) \<and>
   (L (ustr ''Nigeria'') = Inr (ustr ''NG'') \<longrightarrow>
      get_country_code U L (ustr ''Nigeria'') = Inr (ustr ''NG'')) \<and>
   (L (ustr ''Not A Country'') = Inl e' \<longrightarrow>
      get_country_code U L (ustr ''Not A Country'') = Inr [])"
proof -
  have empty: "get_country_code U L [] = Inr []"
    by (simp add: get_country_code_def)
  have two: "inp \<noteq> [] \<and> length (py_strip inp) = 2 \<and> py_isalpha U (py_strip inp) \<longrightarrow>
      get_country_code U L inp = Inr (py_upper U (py_strip inp))"
    by (simp add: get_country_code_def)
  have found: "inp \<noteq> [] \<and> \<not> (length (py_strip inp) = 2 \<and> py_isalpha U (py_strip inp)) \<and>
    L (py_strip inp) = Inr code \<longrightarrow> get_country_code U L inp = Inr code"
    by (auto simp: get_country_code_def)
  have missing: "inp \<noteq> [] \<and> \<not> (length (py_strip inp) = 2 \<and> py_isalpha U (py_strip inp)) \<and>
    L (py_strip inp) = Inl e \<longrightarrow> get_country_code U L inp = Inr []"
    by (auto simp: get_country_code_def)
  have ng: "ascii_std U \<longrightarrow> get_country_code U L (ustr ''ng'') = Inr (ustr ''NG'')"
  proof
    assume U: "ascii_std U"
    have s: "py_strip (ustr ''ng'') = [110, 103]" "ustr ''ng'' \<noteq> []" "ustr ''NG'' = [78, 71]"
      by (simp_all add: string_defs)
    from U have "py_isalpha U [110, 103]" "py_upper U [110, 103] = [78, 71]"
      by (simp_all add: ascii_std_def py_isalpha_def py_upper_def)
    with s show "get_country_code U L (ustr ''ng'') = Inr (ustr ''NG'')"
      by (simp add: get_country_code_def)
  qed
  have nigeria: "L (ustr ''Nigeria'') = Inr (ustr ''NG'') \<longrightarrow>
      get_country_code U L (ustr ''Nigeria'') = Inr (ustr ''NG'')"
  proof
    assume L: "L (ustr ''Nigeria'') = Inr (ustr ''NG'')"
    have s: "py_strip (ustr ''Nigeria'') = ustr ''Nigeria''" "length (ustr ''Nigeria'') = 7"
      "ustr ''Nigeria'' \<noteq> []"
      by (simp_all add: string_defs)
    with L show "get_country_code U L (ustr ''Nigeria'') = Inr (ustr ''NG'')"
      by (simp add: get_country_code_def)
  qed
  have nowhere: "L (ustr ''Not A Country'') = Inl e' \<longrightarrow>
      get_country_code U L (ustr ''Not A Country'') = Inr []"
  proof
    assume L: "L (ustr ''Not A Country'') = Inl e'"
    have s: "py_strip (ustr ''Not A Country'') = ustr ''Not A Country''"
      "length (ustr ''Not A Country'') = 13" "ustr ''Not A Country'' \<noteq> []"
      by (simp_all add: string_defs)
    with L show "get_country_code U L (ustr ''Not A Country'') = Inr []"
      by (simp add: get_country_code_def)
  qed
  from empty get_country_code_returns [of U L inp] two found missing ng nigeria nowhere
  show ?thesis by blast
qed

theorem get_country_code_cases_witness:
  "ascii_std latin1_tables \<and>
   sample_lookup (ustr ''Nigeria'') = Inr (ustr ''NG'') \<and>
   sample_lookup (ustr ''Not A Country'') = Inl (Exn (ustr ''Could not find a record'')) \<and>
   sample_lookup (ustr ''Ghana'') = Inl (Exn (ustr ''Could not find a record'')) \<and>
   get_country_code latin1_tables sample_lookup (ustr ''ng'') = Inr (ustr ''NG'') \<and>
   get_country_code latin1_tables sample_lookup (ustr ''Nigeria'') = Inr (ustr ''NG'') \<and>
   get_country_code latin1_tables sample_lookup (ustr ''Not A Country'') = Inr [] \<and>
   get_country_code latin1_tables sample_lookup (ustr '' zz '') = Inr (ustr ''ZZ'') \<and>
   get_country_code latin1_tables sample_lookup (ustr ''Ghana'') = Inr []"
proof -
  have h1: "ascii_std latin1_tables"
    by (rule ascii_std_latin1)
  have h2: "sample_lookup (ustr ''Nigeria'') = Inr (ustr ''NG'')"
    by (simp add: sample_lookup_def)
  have h3: "sample_lookup (ustr ''Not A Country'') = Inl (Exn (ustr ''Could not find a record''))"
    by (simp add: sample_lookup_def ustr_def)
  have h4: "sample_lookup (ustr ''Ghana'') = Inl (Exn (ustr ''Could not find a record''))"
    by (simp add: sample_lookup_def ustr_def)
  have zz: "ustr '' zz '' \<noteq> []" "py_strip (ustr '' zz '') = [122, 122]"
    "py_isalpha latin1_tables [122, 122]" "py_upper latin1_tables [122, 122] = ustr ''ZZ''"
    by (simp_all add: string_defs py_isalpha_def py_upper_def latin1_tables_def)
  have gh: "ustr ''Ghana'' \<noteq> []" "py_strip (ustr ''Ghana'') = ustr ''Ghana''"
    "length (ustr ''Ghana'') = 5"
    by (simp_all add: string_defs)
  note t = get_country_code_cases [of latin1_tables sample_lookup _ _ _ "Exn (ustr ''Could not find a record'')"]
  from t [of "ustr ''ng''"] h1 h2 h3
  have a: "get_country_code latin1_tables sample_lookup (ustr ''ng'') = Inr (ustr ''NG'')"
    "get_country_code latin1_tables sample_lookup (ustr ''Nigeria'') = Inr (ustr ''NG'')"
    "get_country_code latin1_tables sample_lookup (ustr ''Not A Country'') = Inr []"
    by blast+
  from t [of "ustr '' zz ''"] zz
  have b: "get_country_code latin1_tables sample_lookup (ustr '' zz '') = Inr (ustr ''ZZ'')"
    by simp
  from t [of "ustr ''Ghana''" _ "Exn (ustr ''Could not find a record'')"] gh h4
  have c: "get_country_code latin1_tables sample_lookup (ustr ''Ghana'') = Inr []"
    by simp
  from h1 h2 h3 h4 a b c show ?thesis by blast
qed

text \<open>
  C10 as stated fails: a two-character alphabetic input outside ASCII is upper-cased as
  it is. The input of U+00DF (sharp s) and \<open>a\<close> gives the three characters \<open>SSA\<close>.
\<close>

theorem get_country_code_three_letters:
  "get_country_code latin1_tables sample_lookup [223, 97] = Inr [83, 83, 65] \<and>
   [83, 83, 65] \<noteq> ([] :: pystr) \<and> \<not> is_alpha2 [83, 83, 65]"
  by (simp add: get_country_code_def string_defs py_isalpha_def py_upper_def latin1_tables_def
        is_alpha2_def)

text \<open>
  C10, amended: \<open>get_country_code\<close> never raises, and what it returns is the empty
  string, or the upper-cased trimmed input when that has two alphabetic characters, or
  the code the lookup gave. For an ASCII input, and a country database whose codes are
  two upper-case ASCII letters, the result is the empty string or two upper-case ASCII
  letters.
\<close>

theorem get_country_code_shape:
  "(\<exists>r. get_country_code U L inp = Inr r \<and>
        (r = [] \<or>
         (length (py_strip inp) = 2 \<and> py_isalpha U (py_strip inp) \<and> r = py_upper U (py_strip inp)) \<or>
         L (py_strip inp) = Inr r)) \<and>
   (ascii_std U \<and> is_ascii inp \<and> alpha2_lookup L \<longrightarrow>
      (\<exists>r. get_country_code U L inp = Inr r \<and> (r = [] \<or> is_alpha2 r)))"
proof -
  have general: "\<exists>r. get_country_code U L inp = Inr r \<and>
        (r = [] \<or>
         (length (py_strip inp) = 2 \<and> py_isalpha U (py_strip inp) \<and> r = py_upper U (py_strip inp)) \<or>
         L (py_strip inp) = Inr r)"
    by (cases "L (py_strip inp)") (auto simp: get_country_code_def Let_def)
  have ascii: "\<exists>r. get_country_code U L inp = Inr r \<and> (r = [] \<or> is_alpha2 r)"
    if U: "ascii_std U" and inp: "is_ascii inp" and L: "alpha2_lookup L"
  proof -
    from general obtain r where r: "get_country_code U L inp = Inr r"
      and cases: "r = [] \<or>
         (length (py_strip inp) = 2 \<and> py_isalpha U (py_strip inp) \<and> r = py_upper U (py_strip inp)) \<or>
         L (py_strip inp) = Inr r"
      by blast
    from cases have "r = [] \<or> is_alpha2 r"
    proof (elim disjE)
      assume "r = []"
      then show ?thesis by simp
    next
      assume two: "length (py_strip inp) = 2 \<and> py_isalpha U (py_strip inp) \<and> r = py_upper U (py_strip inp)"
      then obtain a b where ab: "py_strip inp = [a, b]"
        by (metis (no_types) length_0_conv length_Suc_conv numeral_2_eq_2)
      from is_ascii_py_strip [OF inp] ab have "a < 128" "b < 128"
        by (simp_all add: is_ascii_def)
      with upper_ascii_pair [OF U, of a b] two ab show ?thesis by simp
    next
      assume "L (py_strip inp) = Inr r"
      with L show ?thesis by (auto simp: alpha2_lookup_def)
    qed
    with r show ?thesis by blast
  qed
  from general ascii show ?thesis by blast
qed

theorem get_country_code_shape_witness:
  "ascii_std latin1_tables \<and> is_ascii (ustr ''ng'') \<and> alpha2_lookup sample_lookup \<and>
   get_country_code latin1_tables sample_lookup (ustr ''ng'') = Inr (ustr ''NG'') \<and>
   is_alpha2 (ustr ''NG'')"
proof -
  have h: "ascii_std latin1_tables" "is_ascii (ustr ''ng'')" "alpha2_lookup sample_lookup"
    by (simp_all add: ascii_std_latin1 alpha2_sample_lookup is_ascii_def ustr_def)
  have v: "get_country_code latin1_tables sample_lookup (ustr ''ng'') = Inr (ustr ''NG'')"
    by (simp add: get_country_code_def string_defs py_isalpha_def py_upper_def latin1_tables_def)
  from get_country_code_shape [of latin1_tables sample_lookup "ustr ''ng''"] h v
  show ?thesis by (auto simp: ustr_def)
qed

section \<open>The gateway\<close>

lemmas outcome_defs = ret_def call_def bind_out_def try_except_def build_payload_step_def

lemma clean_empty_not_present_but_empty: "\<not> present_but_empty (clean_empty v)"
  by (cases v) (simp_all add: clean_empty_def present_but_empty_def)

text \<open>
  C7: with no keywords stored, the two table fetches return an empty table and
  \<open>get_related_queries\<close> returns \<open>None\<close>; the trace of each is empty, whatever the
  provider is: no payload is built, no fetch is made, and there is no pause.
\<close>

theorem no_keywords_no_calls:
  "self_keywords g = [] \<Longrightarrow>
   fetch_interest_over_time P g = ([], Inr empty_frame) \<and>
   get_interest_by_region P g resolution = ([], Inr empty_frame) \<and>
   get_related_queries P g = ([], Inr None)"
  by (simp add: fetch_interest_over_time_def get_interest_by_region_def get_related_queries_def
        ret_def)

theorem no_keywords_no_calls_witness:
  "self_keywords idle_gateway = [] \<and>
   fetch_interest_over_time sample_provider idle_gateway = ([], Inr empty_frame) \<and>
   get_interest_by_region sample_provider idle_gateway (ustr ''COUNTRY'') = ([], Inr empty_frame) \<and>
   get_related_queries sample_provider idle_gateway = ([], Inr None)"
proof -
  have h: "self_keywords idle_gateway = []"
    by (simp add: idle_gateway_def)
  from h no_keywords_no_calls [OF h, of sample_provider "ustr ''COUNTRY''"] show ?thesis
    by simp
qed

text \<open>
  C1 as stated fails: \<open>_build_payload\<close> is called before the \<open>try\<close>, so an exception
  raised while the payload is built is not caught by \<open>get_interest_by_region\<close>: it
  reaches the caller.
\<close>

theorem region_fetch_build_error_propagates:
  "get_interest_by_region build_error_provider sample_gateway (ustr ''COUNTRY'') =
     ([BuildPayload [ustr ''Python''] (ustr ''today 1-m'') []], Inl (Exn (ustr ''429'')))"
  by (simp add: get_interest_by_region_def outcome_defs build_error_provider_def
        sample_provider_def sample_gateway_def current_payload_def ustr_def)

text \<open>
  C1, amended: with keywords stored and the payload built without an exception,
  \<open>get_interest_by_region\<close> returns a table and raises nothing: the provider's table,
  and an empty table when \<open>interest_by_region\<close> raises or returns something that is
  not a table. An exception of the payload build is propagated to the caller.
\<close>

theorem region_fetch_outcome:
  "self_keywords g \<noteq> [] \<Longrightarrow>
   (build_payload P (current_payload g) = Inr u \<and>
    interest_by_region P (current_payload g) resolution = Inl e \<longrightarrow>
      snd (get_interest_by_region P g resolution) = Inr empty_frame) \<and>
   (build_payload P (current_payload g) = Inr u \<and>
    interest_by_region P (current_payload g) resolution = Inr (DataFrame d) \<longrightarrow>
      snd (get_interest_by_region P g resolution) = Inr d) \<and>
   (build_payload P (current_payload g) = Inr u \<and>
    interest_by_region P (current_payload g) resolution \<in> {Inr NoneVal, Inr OtherVal} \<longrightarrow>
      snd (get_interest_by_region P g resolution) = Inr empty_frame) \<and>
   (build_payload P (current_payload g) = Inr u \<longrightarrow>
      (\<exists>t. get_interest_by_region P g resolution =
         ([BuildPayload (self_keywords g) (self_timeframe g) (self_geo g),
           InterestByRegion resolution], Inr t))) \<and>
   (build_payload P (current_payload g) = Inl e' \<longrightarrow>
      get_interest_by_region P g resolution =
        ([BuildPayload (self_keywords g) (self_timeframe g) (self_geo g)], Inl e'))"
  by (cases "interest_by_region P (current_payload g) resolution")
     (auto simp: get_interest_by_region_def outcome_defs split: pyval.splits)

theorem region_fetch_outcome_witness:
  "self_keywords sample_gateway \<noteq> [] \<and>
   build_payload region_error_provider (current_payload sample_gateway) = Inr () \<and>
   interest_by_region region_error_provider (current_payload sample_gateway) (ustr ''COUNTRY'') =
     Inl (Exn (ustr ''429'')) \<and>
   snd (get_interest_by_region region_error_provider sample_gateway (ustr ''COUNTRY'')) = Inr empty_frame \<and>
   interest_by_region sample_provider (current_payload sample_gateway) (ustr ''COUNTRY'') =
     Inr (DataFrame sample_regions) \<and>
   snd (get_interest_by_region sample_provider sample_gateway (ustr ''COUNTRY'')) = Inr sample_regions \<and>
   build_payload build_error_provider (current_payload sample_gateway) = Inl (Exn (ustr ''429'')) \<and>
   snd (get_interest_by_region build_error_provider sample_gateway (ustr ''COUNTRY'')) =
     Inl (Exn (ustr ''429''))"
proof -
  have k: "self_keywords sample_gateway \<noteq> []"
    by (simp add: sample_gateway_def)
  have r: "build_payload region_error_provider (current_payload sample_gateway) = Inr ()"
    "interest_by_region region_error_provider (current_payload sample_gateway) (ustr ''COUNTRY'') =
       Inl (Exn (ustr ''429''))"
    by (simp_all add: region_error_provider_def sample_provider_def)
  have s: "build_payload sample_provider (current_payload sample_gateway) = Inr ()"
    "interest_by_region sample_provider (current_payload sample_gateway) (ustr ''COUNTRY'') =
       Inr (DataFrame sample_regions)"
    by (simp_all add: sample_provider_def)
  have b: "build_payload build_error_provider (current_payload sample_gateway) = Inl (Exn (ustr ''429''))"
    by (simp add: build_error_provider_def)
  from region_fetch_outcome [OF k, of region_error_provider "()" "ustr ''COUNTRY''" "Exn (ustr ''429'')"] r
  have 1: "snd (get_interest_by_region region_error_provider sample_gateway (ustr ''COUNTRY'')) = Inr empty_frame"
    by blast
  from region_fetch_outcome [OF k, of sample_provider "()" "ustr ''COUNTRY''" _ sample_regions] s
  have 2: "snd (get_interest_by_region sample_provider sample_gateway (ustr ''COUNTRY'')) = Inr sample_regions"
    by blast
  from region_fetch_outcome [OF k, of build_error_provider _ "ustr ''COUNTRY''" _ _ "Exn (ustr ''429'')"] b
  have 3: "snd (get_interest_by_region build_error_provider sample_gateway (ustr ''COUNTRY'')) =
     Inl (Exn (ustr ''429''))"
    by simp
  from k r s b 1 2 3 show ?thesis by blast
qed

text \<open>
  C9: \<open>get_related_frames\<close> reads the bucket of the first keyword only, and a table
  that is present but empty comes back as \<open>None\<close>; when the provider raises, returns
  nothing, or no keyword is stored, both \<open>top\<close> and \<open>rising\<close> are \<open>None\<close>. (The
  provider's response exists once the payload is built; an exception of the payload
  build is not a response and is propagated.)
\<close>

theorem related_frames_spec:
  "(self_keywords g = [] \<longrightarrow> get_related_frames P g = ([], Inr no_frames)) \<and>
   (self_keywords g \<noteq> [] \<and> build_payload P (current_payload g) = Inr u \<and>
    related_queries P (current_payload g) = Inl e \<longrightarrow>
      snd (get_related_frames P g) = Inr no_frames) \<and>
   (self_keywords g \<noteq> [] \<and> build_payload P (current_payload g) = Inr u \<and>
    related_queries P (current_payload g) = Inr None \<longrightarrow>
      snd (get_related_frames P g) = Inr no_frames) \<and>
   (self_keywords g = k # ks \<and> build_payload P (current_payload g) = Inr u \<and>
    related_queries P (current_payload g) = Inr (Some rq) \<longrightarrow>
      snd (get_related_frames P g) =
        Inr \<lparr> top_df = clean_empty (bucket_get (bucket_of rq k) (ustr ''top'')),
              rising_df = clean_empty (bucket_get (bucket_of rq k) (ustr ''rising'')) \<rparr>) \<and>
   (snd (get_related_frames P g) = Inr b \<longrightarrow>
      \<not> present_but_empty (top_df b) \<and> \<not> present_but_empty (rising_df b))"
proof -
  have none: "self_keywords g = [] \<longrightarrow> get_related_frames P g = ([], Inr no_frames)"
    by (simp add: get_related_frames_def get_related_queries_def outcome_defs no_frames_def)
  have raised: "self_keywords g \<noteq> [] \<and> build_payload P (current_payload g) = Inr u \<and>
    related_queries P (current_payload g) = Inl e \<longrightarrow>
      snd (get_related_frames P g) = Inr no_frames"
    by (simp add: get_related_frames_def get_related_queries_def outcome_defs no_frames_def)
  have unanswered: "self_keywords g \<noteq> [] \<and> build_payload P (current_payload g) = Inr u \<and>
    related_queries P (current_payload g) = Inr None \<longrightarrow>
      snd (get_related_frames P g) = Inr no_frames"
    by (simp add: get_related_frames_def get_related_queries_def outcome_defs no_frames_def)
  have bucket: "self_keywords g = k # ks \<and> build_payload P (current_payload g) = Inr u \<and>
    related_queries P (current_payload g) = Inr (Some rq) \<longrightarrow>
      snd (get_related_frames P g) =
        Inr \<lparr> top_df = clean_empty (bucket_get (bucket_of rq k) (ustr ''top'')),
              rising_df = clean_empty (bucket_get (bucket_of rq k) (ustr ''rising'')) \<rparr>"
  proof (cases "rq = []")
    case True
    then show ?thesis
      by (simp add: get_related_frames_def get_related_queries_def outcome_defs
            bucket_of_def bucket_get_def clean_empty_def)
  next
    case False
    then show ?thesis
      by (simp add: get_related_frames_def get_related_queries_def outcome_defs Let_def)
  qed
  have clean: "snd (get_related_frames P g) = Inr b \<longrightarrow>
      \<not> present_but_empty (top_df b) \<and> \<not> present_but_empty (rising_df b)"
  proof
    assume b: "snd (get_related_frames P g) = Inr b"
    have "b = no_frames \<or>
          (\<exists>bk. b = \<lparr> top_df = clean_empty (bucket_get bk (ustr ''top'')),
                       rising_df = clean_empty (bucket_get bk (ustr ''rising'')) \<rparr>)"
      using b
      by (auto simp: get_related_frames_def get_related_queries_def outcome_defs no_frames_def
            Let_def split: if_splits sum.splits option.splits list.splits prod.splits)
    moreover have "\<not> present_but_empty (NoneVal :: ('a, 'b) pyval)"
      by (simp add: present_but_empty_def)
    ultimately show "\<not> present_but_empty (top_df b) \<and> \<not> present_but_empty (rising_df b)"
      by (auto simp: no_frames_def clean_empty_not_present_but_empty)
  qed
  from none raised unanswered bucket clean show ?thesis by blast
qed

theorem related_frames_spec_witness:
  "self_keywords idle_gateway = [] \<and>
   get_related_frames sample_provider idle_gateway = ([], Inr no_frames) \<and>
   self_keywords sample_gateway = [ustr ''Python''] \<and>
   build_payload sample_provider (current_payload sample_gateway) = Inr () \<and>
   present_but_empty (bucket_get (bucket_of
      [(ustr ''Python'', Some [(ustr ''top'', DataFrame sample_top_empty),
                               (ustr ''rising'', DataFrame sample_rising)])]
      (ustr ''Python'')) (ustr ''top'')) \<and>
   snd (get_related_frames sample_provider sample_gateway) =
     Inr \<lparr> top_df = NoneVal, rising_df = DataFrame sample_rising \<rparr> \<and>
   \<not> present_but_empty (NoneVal :: (cell, cell) pyval) \<and>
   \<not> present_but_empty (DataFrame sample_rising)"
proof -
  let ?rq = "[(ustr ''Python'', Some [(ustr ''top'', DataFrame sample_top_empty),
                               (ustr ''rising'', DataFrame sample_rising)])]"
  have i: "self_keywords idle_gateway = []"
    by (simp add: idle_gateway_def)
  have k: "self_keywords sample_gateway = [ustr ''Python'']"
    by (simp add: sample_gateway_def)
  have p: "build_payload sample_provider (current_payload sample_gateway) = Inr ()"
    "related_queries sample_provider (current_payload sample_gateway) = Inr (Some ?rq)"
    by (simp_all add: sample_provider_def)
  have top: "bucket_get (bucket_of ?rq (ustr ''Python'')) (ustr ''top'') = DataFrame sample_top_empty"
    and rising: "bucket_get (bucket_of ?rq (ustr ''Python'')) (ustr ''rising'') = DataFrame sample_rising"
    by (simp_all add: bucket_get_def bucket_of_def ustr_def)
  have e: "present_but_empty (DataFrame sample_top_empty)"
    "clean_empty (DataFrame sample_top_empty) = NoneVal"
    "clean_empty (DataFrame sample_rising) = DataFrame sample_rising"
    by (simp_all add: present_but_empty_def clean_empty_def df_empty_def sample_top_empty_def
          sample_rising_def)
  from related_frames_spec [of idle_gateway sample_provider] i
  have 1: "get_related_frames sample_provider idle_gateway = ([], Inr no_frames)"
    by blast
  from related_frames_spec [of sample_gateway sample_provider "()" _ "ustr ''Python''" "[]" ?rq] k p
  have 2: "snd (get_related_frames sample_provider sample_gateway) =
        Inr \<lparr> top_df = clean_empty (bucket_get (bucket_of ?rq (ustr ''Python'')) (ustr ''top'')),
              rising_df = clean_empty (bucket_get (bucket_of ?rq (ustr ''Python'')) (ustr ''rising'')) \<rparr>"
    by blast
  from related_frames_spec [of sample_gateway sample_provider _ _ _ _ _
      "\<lparr> top_df = NoneVal, rising_df = DataFrame sample_rising \<rparr>"] 2
  have 3: "\<not> present_but_empty (NoneVal :: (cell, cell) pyval) \<and>
           \<not> present_but_empty (DataFrame sample_rising)"
    by (simp add: top rising e)
  from i k p 1 2 3 show ?thesis by (simp add: top rising e)
qed

section \<open>The table of related queries\<close>

lemmas sample_table_defs =
  sample_read_json_def top_empty_text_def rising_text_def sample_rising_def sample_top_empty_def

text \<open>
  C4 as stated fails for the render step taken alone: a \<open>top\<close> text that is present
  is read, whatever it holds, and a table without rows ends in the note that no related
  queries are available; the \<open>rising\<close> text is not looked at.
\<close>

theorem related_table_empty_top_hides_rising:
  "sample_read_json top_empty_text = Inr sample_top_empty \<and>
   df_rows sample_top_empty = [] \<and>
   sample_read_json rising_text = Inr sample_rising \<and>
   length (df_rows sample_rising) = 3 \<and>
   update_related_table sample_read_json
     (Some \<lparr> top_json = Some top_empty_text, rising_json = Some rising_text \<rparr>) =
     Inr ([], [], no_related_note)"
  by (simp add: update_related_table_def render_table_def truthy_def text_of_def df_empty_def
        sample_table_defs ustr_def)

text \<open>
  C4, amended: the render step shows the rising rows with the note that rising queries
  are shown instead when the \<open>top\<close> entry of the store is absent and the \<open>rising\<close>
  entry holds a table with rows. That is the store the analysis step writes when the
  provider's \<open>top\<close> table is present but empty and its \<open>rising\<close> table has rows:
  \<open>get_related_frames\<close> has turned the empty table into \<open>None\<close> before the store is
  written. A store whose \<open>top\<close> entry holds a table without rows is rendered as
  "no related queries available".
\<close>

theorem related_table_rising:
  "(\<not> truthy (top_json rj) \<and> rising_json rj = Some r \<and> r \<noteq> [] \<and>
    read_json r = Inr d \<and> \<not> df_empty d \<longrightarrow>
      update_related_table read_json (Some rj) = Inr (table_columns d, to_records d, rising_note)) \<and>
   (present_but_empty top0 \<and> to_json rs \<noteq> [] \<and> \<not> df_empty rs \<and>
    read_json (to_json rs) = Inr d \<and> \<not> df_empty d \<longrightarrow>
      update_related_table read_json
        (Some (store_related to_json
           \<lparr> top_df = clean_empty top0, rising_df = clean_empty (DataFrame rs) \<rparr>)) =
        Inr (table_columns d, to_records d, rising_note)) \<and>
   (top_json rj = Some t \<and> t \<noteq> [] \<and> read_json t = Inr d0 \<and> df_empty d0 \<longrightarrow>
      update_related_table read_json (Some rj) = Inr ([], [], no_related_note))"
proof -
  have rising: "update_related_table read_json (Some rj) = Inr (table_columns d, to_records d, rising_note)"
    if "\<not> truthy (top_json rj)" "rising_json rj = Some r" "r \<noteq> []" "read_json r = Inr d" "\<not> df_empty d"
    for rj :: related_store and r
    using that by (simp add: update_related_table_def render_table_def truthy_def text_of_def)
  have pipeline: "update_related_table read_json
        (Some (store_related to_json
           \<lparr> top_df = clean_empty top0, rising_df = clean_empty (DataFrame rs) \<rparr>)) =
        Inr (table_columns d, to_records d, rising_note)"
    if top0: "present_but_empty top0" and rs: "to_json rs \<noteq> []" "\<not> df_empty rs"
      and d: "read_json (to_json rs) = Inr d" "\<not> df_empty d"
  proof -
    from top0 have "clean_empty top0 = NoneVal"
      by (cases top0) (simp_all add: present_but_empty_def clean_empty_def)
    moreover from rs have "clean_empty (DataFrame rs) = DataFrame rs"
      by (simp add: clean_empty_def)
    ultimately have "store_related to_json
           \<lparr> top_df = clean_empty top0, rising_df = clean_empty (DataFrame rs) \<rparr> =
           \<lparr> top_json = None, rising_json = Some (to_json rs) \<rparr>"
      by (simp add: store_related_def json_or_none_def)
    with rising [of "\<lparr> top_json = None, rising_json = Some (to_json rs) \<rparr>" "to_json rs"] rs d
    show ?thesis by (simp add: truthy_def)
  qed
  have empty_top: "update_related_table read_json (Some rj) = Inr ([], [], no_related_note)"
    if "top_json rj = Some t" "t \<noteq> []" "read_json t = Inr d0" "df_empty d0"
    using that by (simp add: update_related_table_def render_table_def truthy_def text_of_def)
  from rising [of rj r] pipeline empty_top show ?thesis by blast
qed

theorem related_table_rising_witness:
  "\<not> truthy (top_json \<lparr> top_json = None, rising_json = Some rising_text \<rparr>) \<and>
   rising_text \<noteq> [] \<and>
   sample_read_json rising_text = Inr sample_rising \<and>
   \<not> df_empty sample_rising \<and>
   present_but_empty (DataFrame sample_top_empty) \<and>
   sample_to_json sample_rising = rising_text \<and>
   store_related sample_to_json
     \<lparr> top_df = clean_empty (DataFrame sample_top_empty),
       rising_df = clean_empty (DataFrame sample_rising) \<rparr> =
     \<lparr> top_json = None, rising_json = Some rising_text \<rparr> \<and>
   update_related_table sample_read_json
     (Some \<lparr> top_json = None, rising_json = Some rising_text \<rparr>) =
     Inr ([(ustr ''query'', ustr ''query''), (ustr ''value'', ustr ''value'')],
          [[(ustr ''query'', Str (ustr ''python 3'')), (ustr ''value'', Num 300)],
           [(ustr ''query'', Str (ustr ''pandas'')), (ustr ''value'', Num 150)],
           [(ustr ''query'', Str (ustr ''numpy'')), (ustr ''value'', Num 90)]],
          rising_note) \<and>
   sample_read_json top_empty_text = Inr sample_top_empty \<and>
   df_empty sample_top_empty \<and>
   update_related_table sample_read_json
     (Some \<lparr> top_json = Some top_empty_text, rising_json = None \<rparr>) =
     Inr ([], [], no_related_note)"
proof -
  let ?rj = "\<lparr> top_json = None, rising_json = Some rising_text \<rparr>"
  let ?et = "\<lparr> top_json = Some top_empty_text, rising_json = None \<rparr>"
  have h: "\<not> truthy (top_json ?rj)" "rising_json ?rj = Some rising_text" "rising_text \<noteq> []"
    "sample_read_json rising_text = Inr sample_rising" "\<not> df_empty sample_rising"
    by (simp_all add: truthy_def df_empty_def sample_table_defs ustr_def)
  have p: "present_but_empty (DataFrame sample_top_empty)"
    "sample_to_json sample_rising = rising_text"
    by (simp_all add: present_but_empty_def df_empty_def sample_top_empty_def sample_to_json_def)
  have e: "top_json ?et = Some top_empty_text" "top_empty_text \<noteq> []"
    "sample_read_json top_empty_text = Inr sample_top_empty" "df_empty sample_top_empty"
    by (simp_all add: df_empty_def sample_table_defs ustr_def)
  have v: "table_columns sample_rising = [(ustr ''query'', ustr ''query''), (ustr ''value'', ustr ''value'')]"
    "to_records sample_rising =
       [[(ustr ''query'', Str (ustr ''python 3'')), (ustr ''value'', Num 300)],
        [(ustr ''query'', Str (ustr ''pandas'')), (ustr ''value'', Num 150)],
        [(ustr ''query'', Str (ustr ''numpy'')), (ustr ''value'', Num 90)]]"
    by (simp_all add: table_columns_def to_records_def sample_rising_def ustr_def)
  have s: "store_related sample_to_json
     \<lparr> top_df = clean_empty (DataFrame sample_top_empty),
       rising_df = clean_empty (DataFrame sample_rising) \<rparr> = ?rj"
    by (simp add: store_related_def json_or_none_def clean_empty_def df_empty_def
          sample_top_empty_def sample_rising_def sample_to_json_def)
  note t = related_table_rising [of _ _ sample_read_json _ _ sample_to_json]
  from t [of ?rj rising_text sample_rising] h
  have 1: "update_related_table sample_read_json (Some ?rj) =
     Inr (table_columns sample_rising, to_records sample_rising, rising_note)"
    by blast
  from t [of ?et _ _ _ _ top_empty_text sample_top_empty] e
  have 2: "update_related_table sample_read_json (Some ?et) = Inr ([], [], no_related_note)"
    by blast
  from h p e s 1 2 show ?thesis by (simp add: v)
qed

section \<open>Top regions\<close>

lemma sorted_sort_values_desc:
  "sorted_wrt (\<lambda>a b. b \<le> a) (map (score cols kw) (sort_values_desc cols kw rs))"
proof -
  have "sorted (map (\<lambda>r. - score cols kw r) (sort_key (\<lambda>r. - score cols kw r) rs))"
    by (rule sorted_sort_key)
  then have "sorted_wrt (\<lambda>x y. - score cols kw x \<le> - score cols kw y) (sort_values_desc cols kw rs)"
    by (simp add: sorted_map sort_values_desc_def)
  then show ?thesis by (simp add: sorted_wrt_map)
qed

lemma df_head_take: "\<exists>k. df_head n xs = take k xs"
  by (auto simp: df_head_def)

lemma set_df_head: "set (df_head n xs) \<subseteq> set xs"
  using df_head_take [of n xs] by (auto dest: in_set_takeD)

lemma length_df_head: "0 \<le> n \<Longrightarrow> length (df_head n xs) = min (nat n) (length xs)"
  by (simp add: df_head_def min.commute)

lemma sorted_df_head:
  "sorted_wrt R (map f xs) \<Longrightarrow> sorted_wrt R (map f (df_head n xs))"
proof -
  assume s: "sorted_wrt R (map f xs)"
  obtain k where k: "df_head n xs = take k xs"
    using df_head_take by blast
  from s have "sorted_wrt R (take k (map f xs))"
    by (rule sorted_wrt_take)
  then show ?thesis by (simp add: k take_map)
qed

lemma meets_value: "meets cols kw m r \<Longrightarrow> \<exists>v. col_value cols kw r = Some v \<and> m \<le> v"
  by (auto simp: meets_def split: option.splits)

lemma top_regions_rows_meet:
  assumes "r \<in> set (df_rows (top_regions_fr d kw mi tn))"
  shows "r \<in> set (df_rows d) \<and> meets (df_columns d) kw (or_default mi 0) r"
proof -
  let ?kept = "filter (meets (df_columns d) kw (or_default mi 0)) (df_rows d)"
  from assms have "r \<in> set (df_head (or_default tn 10) (sort_values_desc (df_columns d) kw ?kept))"
    by (simp add: top_regions_fr_def)
  then have "r \<in> set (sort_values_desc (df_columns d) kw ?kept)"
    by (rule subsetD [OF set_df_head])
  then show ?thesis by (simp add: sort_values_desc_def)
qed

text \<open>
  C8 as stated fails for \<open>top_n = 0\<close>: \<open>top_n or 10\<close> replaces it by 10, so up to 10
  rows are charted. With the threshold 20 the sample table keeps four rows.
\<close>

theorem top_regions_zero_top_n:
  "df_rows (top_regions_fr sample_region (ustr ''Python'') (Some 20) (Some 0)) =
     [(ustr ''Nigeria'', [80]), (ustr ''Ghana'', [50]), (ustr ''Mali'', [35]), (ustr ''Togo'', [20])] \<and>
   \<not> length (df_rows (top_regions_fr sample_region (ustr ''Python'') (Some 20) (Some 0))) \<le> nat 0"
  by (simp add: top_regions_fr_def sort_values_desc_def df_head_def or_default_def meets_def
        score_def col_value_def sample_region_def ustr_def)

text \<open>
  C8, amended: for a region table with distinct column labels that has the keyword's
  column, every threshold and every \<open>top_n\<close> of at least 1, the table charted has at
  most \<open>top_n\<close> rows (as many as the threshold lets through, up to \<open>top_n\<close>), all rows
  of the region table with a value of at least the threshold in that column (at least
  0 when the threshold is absent), in descending order of that column. With \<open>top_n\<close>
  absent or 0 the bound is 10.
\<close>

theorem top_regions_spec:
  assumes "kw \<in> set (df_columns d)" and "distinct (df_columns d)"
  shows
   "(0 < n \<longrightarrow>
       length (df_rows (top_regions_fr d kw mi (Some n))) =
         min (nat n) (length (filter (meets (df_columns d) kw (or_default mi 0)) (df_rows d))) \<and>
       length (df_rows (top_regions_fr d kw mi (Some n))) \<le> nat n) \<and>
    length (df_rows (top_regions_fr d kw mi None)) \<le> 10 \<and>
    length (df_rows (top_regions_fr d kw mi (Some 0))) \<le> 10 \<and>
    (\<forall>r \<in> set (df_rows (top_regions_fr d kw (Some m) tn)).
       r \<in> set (df_rows d) \<and> (\<exists>v. col_value (df_columns d) kw r = Some v \<and> m \<le> v)) \<and>
    (\<forall>r \<in> set (df_rows (top_regions_fr d kw None tn)).
       r \<in> set (df_rows d) \<and> (\<exists>v. col_value (df_columns d) kw r = Some v \<and> 0 \<le> v)) \<and>
    sorted_wrt (\<lambda>a b. b \<le> a)
      (map (score (df_columns d) kw) (df_rows (top_regions_fr d kw mi tn))) \<and>
    df_columns (top_regions_fr d kw mi tn) = df_columns d"
proof -
  have len: "length (df_rows (top_regions_fr d kw mi (Some n))) =
         min (nat n) (length (filter (meets (df_columns d) kw (or_default mi 0)) (df_rows d)))"
    if "0 < n"
    using that
    by (simp add: top_regions_fr_def or_default_def length_df_head sort_values_desc_def)
  have ten: "length (df_rows (top_regions_fr d kw mi None)) \<le> 10"
    "length (df_rows (top_regions_fr d kw mi (Some 0))) \<le> 10"
    by (simp_all add: top_regions_fr_def or_default_def length_df_head)
  have m0: "or_default (Some m) 0 = m" "or_default None 0 = 0"
    by (simp_all add: or_default_def)
  have some: "\<forall>r \<in> set (df_rows (top_regions_fr d kw (Some m) tn)).
       r \<in> set (df_rows d) \<and> (\<exists>v. col_value (df_columns d) kw r = Some v \<and> m \<le> v)"
    using top_regions_rows_meet [of _ d kw "Some m" tn] meets_value [of "df_columns d" kw m]
    unfolding m0 by blast
  have none: "\<forall>r \<in> set (df_rows (top_regions_fr d kw None tn)).
       r \<in> set (df_rows d) \<and> (\<exists>v. col_value (df_columns d) kw r = Some v \<and> 0 \<le> v)"
    using top_regions_rows_meet [of _ d kw None tn] meets_value [of "df_columns d" kw 0]
    unfolding m0 by blast
  have sorted: "sorted_wrt (\<lambda>a b. b \<le> a)
      (map (score (df_columns d) kw) (df_rows (top_regions_fr d kw mi tn)))"
    by (simp add: top_regions_fr_def sorted_df_head sorted_sort_values_desc)
  have cols: "df_columns (top_regions_fr d kw mi tn) = df_columns d"
    by (simp add: top_regions_fr_def)
  from len have bound: "0 < n \<longrightarrow>
       length (df_rows (top_regions_fr d kw mi (Some n))) =
         min (nat n) (length (filter (meets (df_columns d) kw (or_default mi 0)) (df_rows d))) \<and>
       length (df_rows (top_regions_fr d kw mi (Some n))) \<le> nat n"
    by simp
  show ?thesis
    using bound ten some none sorted cols by (intro conjI) assumption+
qed

theorem top_regions_spec_witness:
  "ustr ''Python'' \<in> set (df_columns sample_region) \<and>
   distinct (df_columns sample_region) \<and>
   (0 :: int) < 3 \<and>
   df_rows (top_regions_fr sample_region (ustr ''Python'') (Some 20) (Some 3)) =
     [(ustr ''Nigeria'', [80]), (ustr ''Ghana'', [50]), (ustr ''Mali'', [35])] \<and>
   length (df_rows (top_regions_fr sample_region (ustr ''Python'') (Some 20) (Some 3))) \<le> nat 3 \<and>
   list_all (\<lambda>r. r \<in> set (df_rows sample_region) \<and>
                 (\<exists>v. col_value (df_columns sample_region) (ustr ''Python'') r = Some v \<and> 20 \<le> v))
     (df_rows (top_regions_fr sample_region (ustr ''Python'') (Some 20) (Some 3))) \<and>
   sorted_wrt (\<lambda>a b. b \<le> a)
     (map (score (df_columns sample_region) (ustr ''Python''))
        (df_rows (top_regions_fr sample_region (ustr ''Python'') (Some 20) (Some 3))))"
proof -
  have h: "ustr ''Python'' \<in> set (df_columns sample_region)" "distinct (df_columns sample_region)"
    by (simp_all add: sample_region_def)
  have v: "df_rows (top_regions_fr sample_region (ustr ''Python'') (Some 20) (Some 3)) =
     [(ustr ''Nigeria'', [80]), (ustr ''Ghana'', [50]), (ustr ''Mali'', [35])]"
    by (simp add: top_regions_fr_def sort_values_desc_def df_head_def or_default_def meets_def
          score_def col_value_def sample_region_def ustr_def)
  from top_regions_spec [OF h, of 3 "Some 20" 20 "Some 3"]
  have "length (df_rows (top_regions_fr sample_region (ustr ''Python'') (Some 20) (Some 3))) \<le> nat 3"
    and "\<forall>r \<in> set (df_rows (top_regions_fr sample_region (ustr ''Python'') (Some 20) (Some 3))).
       r \<in> set (df_rows sample_region) \<and>
       (\<exists>v. col_value (df_columns sample_region) (ustr ''Python'') r = Some v \<and> 20 \<le> v)"
    and "sorted_wrt (\<lambda>a b. b \<le> a)
     (map (score (df_columns sample_region) (ustr ''Python''))
        (df_rows (top_regions_fr sample_region (ustr ''Python'') (Some 20) (Some 3))))"
    by simp_all
  with h v show ?thesis by (simp add: list_all_iff)
qed

end
